theory Spec2Isabelle
  imports Main
begin

section \<open>Common Python notions\<close>

text \<open>
  Exceptions are values. Only subclasses of Python's \<open>Exception\<close> are modelled, since
  every handler of the repository is \<open>except Exception\<close>. An exception carries the
  text that \<open>str(e)\<close> yields.
\<close>

datatype exn_kind =
  KeyError | TypeError | IndexError | AttributeError | JSONDecodeError | RecursionError
  | ExternalError

datatype exn = Exn exn_kind string

fun exn_str :: "exn \<Rightarrow> string" where
  "exn_str (Exn k msg) = msg"

text \<open>\<open>sep.join(parts)\<close> of Python.\<close>

fun join :: "string \<Rightarrow> string list \<Rightarrow> string" where
  "join sep [] = []"
| "join sep [x] = x"
| "join sep (x # y # ys) = x @ sep @ join sep (y # ys)"

definition nl :: string where
  "nl = [CHR 0x0A]"

definition nl2 :: string where
  "nl2 = [CHR 0x0A, CHR 0x0A]"

section \<open>tools/tools.py: the retrieval tool\<close>

text \<open>
  A LangChain document: its text and its metadata dictionary.
\<close>

record document =
  page_content :: string
  metadata :: "string \<rightharpoonup> string"

record retrieval_result =
  rr_context :: string
  rr_sources :: "string list"

text \<open>
  The deduplication loop of \<open>retrieve\<close>: \<open>unique_docs\<close> is the list built so far,
  \<open>retrieved_docs\<close> the set of page contents already seen.
\<close>

fun dedup_loop :: "document list \<Rightarrow> document list \<Rightarrow> string set \<Rightarrow> document list" where
  "dedup_loop [] unique_docs retrieved_docs = unique_docs"
| "dedup_loop (doc # docs) unique_docs retrieved_docs =
     (if page_content doc \<notin> retrieved_docs
      then dedup_loop docs (unique_docs @ [doc]) (insert (page_content doc) retrieved_docs)
      else dedup_loop docs unique_docs retrieved_docs)"

definition unique_docs_of :: "document list \<Rightarrow> document list" where
  "unique_docs_of docs = dedup_loop docs [] {}"

text \<open>\<open>doc.metadata.get("source", "Unknown")\<close>.\<close>

definition doc_source :: "document \<Rightarrow> string" where
  "doc_source doc = (case metadata doc ''source'' of None \<Rightarrow> ''Unknown'' | Some s \<Rightarrow> s)"

text \<open>
  \<open>list(set(sources))\<close>. The order in which Python iterates over a set of strings
  depends on the hash seed of the process; the model keeps one fixed order, and no
  statement below depends on it.
\<close>

definition list_of_set :: "string list \<Rightarrow> string list" where
  "list_of_set xs = remdups xs"

definition context_passages :: "document list \<Rightarrow> string list" where
  "context_passages docs = map page_content (unique_docs_of docs)"

text \<open>The part of \<open>retrieve\<close> after the retriever has answered.\<close>

definition format_retrieved :: "document list \<Rightarrow> retrieval_result" where
  "format_retrieved docs =
     (let unique_docs = unique_docs_of docs;
          context = join nl2 (map page_content unique_docs);
          sources = map doc_source unique_docs
      in \<lparr>rr_context = context, rr_sources = list_of_set sources\<rparr>)"

text \<open>
  The vector index is outside the repository. \<open>retriever_invoke k doc_type question\<close>
  stands for building the Chroma store, \<open>as_retriever\<close> with \<open>k\<close> and the
  \<open>doc_type\<close> filter, and \<open>invoke(question)\<close>; it may raise.
\<close>

type_synonym retriever = "nat \<Rightarrow> string \<Rightarrow> string \<Rightarrow> exn + document list"

definition retrieve :: "retriever \<Rightarrow> string \<Rightarrow> string \<Rightarrow> exn + retrieval_result" where
  "retrieve retriever_invoke question doc_type =
     (case retriever_invoke 3 doc_type question of
        Inl e \<Rightarrow> Inl e
      | Inr docs \<Rightarrow> Inr (format_retrieved docs))"

section \<open>tools/tools.py: the SQL tool\<close>

text \<open>
  Values that DuckDB hands to Python. Floats, dates and the other column types are not
  needed by any statement below and are left out.
\<close>

datatype sql_value = SqlNull | SqlBool bool | SqlInt int | SqlText string

type_synonym sql_tuple = "sql_value list"

type_synonym sql_record = "(string \<times> sql_value) list"

text \<open>The decimal notation of an integer, as \<open>str\<close> writes it.\<close>

definition digit_char :: "nat \<Rightarrow> char" where
  "digit_char d = ''0123456789'' ! d"

fun nat_digits :: "nat \<Rightarrow> string \<Rightarrow> string" where
  "nat_digits n acc =
     (if n < 10 then digit_char n # acc
      else nat_digits (n div 10) (digit_char (n mod 10) # acc))"

definition string_of_int :: "int \<Rightarrow> string" where
  "string_of_int i =
     (if i < 0 then CHR ''-'' # nat_digits (nat (- i)) [] else nat_digits (nat i) [])"

text \<open>\<open>str(v)\<close>, which is also what an f-string does with \<open>{v}\<close>.\<close>

fun py_str :: "sql_value \<Rightarrow> string" where
  "py_str SqlNull = ''None''"
| "py_str (SqlBool b) = (if b then ''True'' else ''False'')"
| "py_str (SqlInt i) = string_of_int i"
| "py_str (SqlText s) = s"

text \<open>\<open>t[i]\<close> on a result tuple.\<close>

definition tuple_at :: "sql_tuple \<Rightarrow> nat \<Rightarrow> exn + sql_value" where
  "tuple_at t i =
     (if i < length t then Inr (t ! i) else Inl (Exn IndexError ''tuple index out of range''))"

text \<open>\<open>v.startswith(p)\<close>: only a \<open>str\<close> has the method.\<close>

fun str_startswith :: "sql_value \<Rightarrow> string \<Rightarrow> exn + bool" where
  "str_startswith (SqlText s) p = Inr (take (length p) s = p)"
| "str_startswith v p = Inl (Exn AttributeError ''startswith'')"

text \<open>A loop body that may raise, run over a list: the first exception ends the loop.\<close>

fun map_exn :: "('a \<Rightarrow> exn + 'b) \<Rightarrow> 'a list \<Rightarrow> exn + 'b list" where
  "map_exn f [] = Inr []"
| "map_exn f (x # xs) =
     (case f x of
        Inl e \<Rightarrow> Inl e
      | Inr y \<Rightarrow> (case map_exn f xs of Inl e \<Rightarrow> Inl e | Inr ys \<Rightarrow> Inr (y # ys)))"

text \<open>
  The bookkeeping of database connections: \<open>opened\<close> counts the calls of
  \<open>duckdb.connect\<close> that succeeded so far (and numbers the handles), \<open>live\<close> lists
  the handles that are open.
\<close>

record db_state =
  opened :: nat
  live :: "nat list"

text \<open>
  What the tools get from outside the repository:
  \<^item> \<open>db_connect n\<close>: whether \<open>duckdb.connect(DUCKDB_PATH, read_only=True)\<close> raises
    when \<open>n\<close> connections have been opened before;
  \<^item> \<open>db_fetchall q\<close>: \<open>con.execute(q).fetchall()\<close>;
  \<^item> \<open>db_records q\<close>: \<open>con.execute(q).df().to_dict(orient="records")\<close>;
  \<^item> \<open>llm_invoke p\<close>: \<open>ChatOpenAI(model="gpt-4o-mini", temperature=0).invoke(p).content\<close>.
\<close>

record tools_env =
  db_connect :: "nat \<Rightarrow> exn option"
  db_fetchall :: "string \<Rightarrow> exn + sql_tuple list"
  db_records :: "string \<Rightarrow> exn + sql_record list"
  llm_invoke :: "string \<Rightarrow> exn + string"

definition connect :: "tools_env \<Rightarrow> db_state \<Rightarrow> (exn + nat) \<times> db_state" where
  "connect env s =
     (case db_connect env (opened s) of
        Some e \<Rightarrow> (Inl e, s)
      | None \<Rightarrow> (Inr (opened s), s\<lparr>opened := Suc (opened s), live := opened s # live s\<rparr>))"

definition close :: "nat \<Rightarrow> db_state \<Rightarrow> db_state" where
  "close con s = s\<lparr>live := removeAll con (live s)\<rparr>"

subsection \<open>\<open>get_schema\<close>\<close>

definition distinct_values_query :: "sql_value \<Rightarrow> sql_value \<Rightarrow> string" where
  "distinct_values_query col_name table_name =
     ''SELECT DISTINCT '' @ py_str col_name @ '' FROM '' @ py_str table_name @ '' LIMIT 50''"

text \<open>The body of the loop over the columns of one table.\<close>

definition describe_column :: "tools_env \<Rightarrow> sql_value \<Rightarrow> sql_tuple \<Rightarrow> exn + string" where
  "describe_column env table_name col =
     (case tuple_at col 0 of
        Inl e \<Rightarrow> Inl e
      | Inr col_name \<Rightarrow>
     (case tuple_at col 1 of
        Inl e \<Rightarrow> Inl e
      | Inr col_type \<Rightarrow>
     (case str_startswith table_name ''DIM_'' of
        Inl e \<Rightarrow> Inl e
      | Inr is_dim \<Rightarrow>
          if is_dim \<and> col_type \<in> set [SqlText ''VARCHAR'', SqlText ''STRING'']
          then
            (case db_fetchall env (distinct_values_query col_name table_name) of
               Inl e \<Rightarrow> Inl e
             | Inr distinct_values \<Rightarrow>
            (case map_exn (\<lambda>v. case tuple_at v 0 of Inl e \<Rightarrow> Inl e | Inr x \<Rightarrow> Inr (py_str x))
                    distinct_values of
               Inl e \<Rightarrow> Inl e
             | Inr values_list \<Rightarrow>
                 Inr (py_str col_name @ '' ('' @ py_str col_type @ '')''
                      @ '' (Values: '' @ join '', '' values_list @ '')'')))
          else Inr (py_str col_name @ '' ('' @ py_str col_type @ '')''))))"

text \<open>The body of the loop over the tables.\<close>

definition describe_table :: "tools_env \<Rightarrow> sql_tuple \<Rightarrow> exn + string" where
  "describe_table env table =
     (case tuple_at table 0 of
        Inl e \<Rightarrow> Inl e
      | Inr table_name \<Rightarrow>
     (case db_fetchall env (''DESCRIBE '' @ py_str table_name) of
        Inl e \<Rightarrow> Inl e
      | Inr columns \<Rightarrow>
     (case map_exn (describe_column env table_name) columns of
        Inl e \<Rightarrow> Inl e
      | Inr col_descriptions \<Rightarrow>
          Inr (''Table: '' @ py_str table_name @ nl @ ''Columns: ''
               @ join '', '' col_descriptions))))"

text \<open>
  \<open>get_schema\<close> has no \<open>try\<close>: an exception of a catalog query leaves the function
  before \<open>con.close()\<close>, so the handle stays in \<open>live\<close>.
\<close>

definition get_schema :: "tools_env \<Rightarrow> db_state \<Rightarrow> (exn + string) \<times> db_state" where
  "get_schema env s =
     (case connect env s of
        (Inl e, s1) \<Rightarrow> (Inl e, s1)
      | (Inr con, s1) \<Rightarrow>
     (case db_fetchall env ''SHOW TABLES'' of
        Inl e \<Rightarrow> (Inl e, s1)
      | Inr tables \<Rightarrow>
     (case map_exn (describe_table env) tables of
        Inl e \<Rightarrow> (Inl e, s1)
      | Inr schema_info \<Rightarrow> (Inr (join nl2 schema_info), close con s1))))"

subsection \<open>\<open>generate_sql\<close>\<close>

text \<open>
  The f-string of the prompt, cut at \<open>{schema}\<close> and \<open>{question}\<close>. The source file
  holds a wrongly decoded dash in rule 1; its bytes are kept.
\<close>

definition prompt_head :: string where
  "prompt_head =
    ''You are a SQL expert. Given the following database schema, write a SQL query to answer the user's question.'' @
    nl @
    ''    '' @ nl @
    ''    Follow these rules:'' @ nl @
    ''    1. Return only SQL'' @ [CHR 0xC3] @ [CHR 0xA2] @ [CHR 0xE2] @ [CHR 0x82] @ [CHR 0xAC] @ [CHR 0xE2] @
    [CHR 0x80] @ [CHR 0x9D] @ ''no explanations, comments, or natural-language text.'' @ nl @
    ''    2. Use only the tables and columns provided in the schema.'' @ nl @
    ''    3. Do not invent fields, tables, or values.'' @ nl @
    ''    4. Prefer simple, readable SQL.'' @ nl @
    ''    5. If the question is ambiguous, choose the safest reasonable interpretation based strictly on the schema.'' @
    nl @
    ''    6. Never modify the database; generate only SELECT queries unless explicitly instructed otherwise.'' @
    nl @
    ''    7. When filters involve text, use case-insensitive matching when appropriate.'' @ nl @
    ''    8. If the user asks for something impossible with the available schema, generate the closest valid SQL query.'' @
    nl @
    nl @
    ''    Schema:'' @ nl @
    ''    ''"

definition prompt_middle :: string where
  "prompt_middle =
    nl @
    nl @
    ''    Question: ''"

definition prompt_tail :: string where
  "prompt_tail =
    nl @
    ''    '' @ nl @
    ''    Return ONLY the SQL query. Do not include markdown formatting (```sql ... ```) or explanations.'' @
    nl @
    ''    ''"

definition sql_prompt :: "string \<Rightarrow> string \<Rightarrow> string" where
  "sql_prompt schema question = prompt_head @ schema @ prompt_middle @ question @ prompt_tail"

definition generate_sql :: "tools_env \<Rightarrow> string \<Rightarrow> db_state \<Rightarrow> (exn + string) \<times> db_state" where
  "generate_sql env question s =
     (case get_schema env s of
        (Inl e, s1) \<Rightarrow> (Inl e, s1)
      | (Inr schema, s1) \<Rightarrow>
     (case llm_invoke env (sql_prompt schema question) of
        Inl e \<Rightarrow> (Inl e, s1)
      | Inr sql_query \<Rightarrow> (Inr sql_query, s1)))"

subsection \<open>\<open>run_sql\<close>\<close>

text \<open>
  The dictionary \<open>{"query": ..., "sql_result": ...}\<close>, and the two kinds of value that
  \<open>run_sql\<close> returns: that dictionary, or a plain string.
\<close>

record sql_output =
  out_query :: string
  out_sql_result :: "sql_record list"

datatype run_sql_value = ErrorText string | QueryOutput sql_output

text \<open>
  \<open>generate_sql\<close> and \<open>duckdb.connect\<close> run before the \<open>try\<close>; inside it only the
  execution of the statement. \<open>finally\<close> closes the handle on both ways out.
\<close>

definition run_sql :: "tools_env \<Rightarrow> string \<Rightarrow> db_state \<Rightarrow> (exn + run_sql_value) \<times> db_state" where
  "run_sql env question s =
     (case generate_sql env question s of
        (Inl e, s1) \<Rightarrow> (Inl e, s1)
      | (Inr sql_query, s1) \<Rightarrow>
     (case connect env s1 of
        (Inl e, s2) \<Rightarrow> (Inl e, s2)
      | (Inr con, s2) \<Rightarrow>
     (case db_records env sql_query of
        Inl e \<Rightarrow> (Inr (ErrorText (''Error executing SQL: '' @ exn_str e)), close con s2)
      | Inr result \<Rightarrow>
          (Inr (QueryOutput \<lparr>out_query = sql_query, out_sql_result = result\<rparr>), close con s2))))"

section \<open>agent/agent.py\<close>

text \<open>
  Values that \<open>json.loads\<close> produces and \<open>json.dumps\<close> consumes. A float stands as
  its literal.
\<close>

datatype json =
  JNull | JBool bool | JInt int | JFloat string | JStr string
  | JArr "json list" | JObj "(string \<times> json) list"

text \<open>
  One entry of \<open>msg.tool_calls\<close>, as the agent framework delivers it: the keys
  \<open>"id"\<close>, \<open>"name"\<close> and \<open>"args"\<close>.
\<close>

record tool_call =
  tc_id :: string
  tc_name :: string
  tc_args :: json

text \<open>
  A message of the history. The code asks \<open>hasattr(msg, "tool_calls")\<close> and
  \<open>hasattr(msg, "tool_call_id")\<close>, so an attribute that a message class lacks is
  \<open>None\<close> here.
\<close>

record message =
  msg_content :: string
  msg_tool_calls :: "tool_call list option"
  msg_tool_call_id :: "string option"

text \<open>
  The value under \<open>"result"\<close> of an entry of the correlation map: the empty list
  \<open>[]\<close> it starts with, or the content of the tool message.
\<close>

datatype tool_result = Placeholder | ResultText string

record call_entry =
  call_name :: string
  call_args :: json
  call_result :: tool_result

text \<open>
  A Python \<open>dict\<close> keeps its keys in the order of their first insertion, and
  \<open>format_tool_details\<close> iterates over the values in that order: the correlation
  map is an association list with distinct keys.
\<close>

type_synonym calls = "(string \<times> call_entry) list"

fun dict_set :: "'k \<Rightarrow> 'v \<Rightarrow> ('k \<times> 'v) list \<Rightarrow> ('k \<times> 'v) list" where
  "dict_set k v [] = [(k, v)]"
| "dict_set k v ((k', v') # kvs) =
     (if k = k' then (k, v) # kvs else (k', v') # dict_set k v kvs)"

text \<open>
  What the agent gets from outside the repository:
  \<^item> \<open>agent_invoke q\<close>: \<open>self.agent.invoke({"messages": [...]})["messages"]\<close>, the
    framework's whole tool-use loop;
  \<^item> \<open>json_loads\<close>, \<open>json_dumps\<close>, \<open>json_dumps_indent\<close> (that is
    \<open>json.dumps(x, indent=2)\<close>) and \<open>dataframe_to_string\<close> (that is
    \<open>pd.DataFrame(x).to_string()\<close>), applied to strings only resp. to values that
    came out of \<open>json_loads\<close>.
\<close>

record agent_env =
  agent_invoke :: "string \<Rightarrow> exn + message list"
  json_loads :: "string \<Rightarrow> exn + json"
  json_dumps :: "json \<Rightarrow> string"
  json_dumps_indent :: "json \<Rightarrow> string"
  dataframe_to_string :: "json \<Rightarrow> exn + string"

subsection \<open>\<open>format_tool_details\<close>\<close>

text \<open>\<open>json.loads(call.get("result", ""))\<close>: a list is not accepted.\<close>

definition loads_result :: "agent_env \<Rightarrow> tool_result \<Rightarrow> exn + json" where
  "loads_result env r =
     (case r of
        Placeholder \<Rightarrow>
          Inl (Exn TypeError ''the JSON object must be str, bytes or bytearray, not list'')
      | ResultText s \<Rightarrow> json_loads env s)"

text \<open>\<open>result[key]\<close> with a string key.\<close>

fun py_getitem :: "json \<Rightarrow> string \<Rightarrow> exn + json" where
  "py_getitem (JObj kvs) k =
     (case map_of kvs k of
        None \<Rightarrow> Inl (Exn KeyError ([CHR 0x27] @ k @ [CHR 0x27]))
      | Some v \<Rightarrow> Inr v)"
| "py_getitem v k = Inl (Exn TypeError ''bad subscript'')"

text \<open>\<open>block += x\<close>, where \<open>block\<close> is a \<open>str\<close>.\<close>

fun append_str :: "string \<Rightarrow> json \<Rightarrow> exn + string" where
  "append_str block (JStr s) = Inr (block @ s)"
| "append_str block v = Inl (Exn TypeError ''can only concatenate str to str'')"

text \<open>
  The body of the loop over the calls. The keys \<open>"name"\<close>, \<open>"args"\<close> and
  \<open>"result"\<close> are present in every entry that \<open>answer\<close> builds, so the defaults of
  \<open>call.get\<close> are never used.
\<close>

definition format_call :: "agent_env \<Rightarrow> call_entry \<Rightarrow> exn + string" where
  "format_call env call =
     (let name = call_name call; args = call_args call in
      case loads_result env (call_result call) of
        Inl e \<Rightarrow> Inl e
      | Inr result \<Rightarrow>
          (let block = ''Tool name: '' @ name @ nl2 @ ''Args:'' @ nl
                       @ json_dumps_indent env args @ nl2 @ ''Result:'' @ nl
           in if name = ''retrieve'' then
                (case py_getitem result ''context'' of
                   Inl e \<Rightarrow> Inl e
                 | Inr ctx \<Rightarrow>
                (case append_str block ctx of
                   Inl e \<Rightarrow> Inl e
                 | Inr block1 \<Rightarrow>
                (case py_getitem result ''sources'' of
                   Inl e \<Rightarrow> Inl e
                 | Inr sources \<Rightarrow>
                     Inr (block1 @ nl2 @ ''Sources:'' @ nl @ json_dumps env sources @ nl2))))
              else if name = ''run_sql'' then
                (case py_getitem result ''query'' of
                   Inl e \<Rightarrow> Inl e
                 | Inr q \<Rightarrow>
                (case append_str block q of
                   Inl e \<Rightarrow> Inl e
                 | Inr block1 \<Rightarrow>
                (case py_getitem result ''sql_result'' of
                   Inl e \<Rightarrow> Inl e
                 | Inr rows \<Rightarrow>
                (case dataframe_to_string env rows of
                   Inl e \<Rightarrow> Inl e
                 | Inr table \<Rightarrow> Inr (block1 @ nl2 @ ''Output:'' @ nl @ table @ nl2)))))
              else
                (case append_str block result of
                   Inl e \<Rightarrow> Inl e
                 | Inr block1 \<Rightarrow> Inr (block1 @ nl2))))"

definition format_tool_details :: "agent_env \<Rightarrow> calls \<Rightarrow> exn + string" where
  "format_tool_details env tool_calls =
     (case map_exn (format_call env) (map snd tool_calls) of
        Inl e \<Rightarrow> Inl e
      | Inr output \<Rightarrow> Inr (join nl2 output))"

subsection \<open>\<open>answer\<close>\<close>

text \<open>The inner loop: \<open>tool_calls[tc["id"]] = {..., "result": []}\<close>.\<close>

fun record_calls :: "tool_call list \<Rightarrow> calls \<Rightarrow> calls" where
  "record_calls [] tool_calls = tool_calls"
| "record_calls (tc # tcs) tool_calls =
     record_calls tcs
       (dict_set (tc_id tc)
          \<lparr>call_name = tc_name tc, call_args = tc_args tc, call_result = Placeholder\<rparr>
          tool_calls)"

text \<open>
  The body of the loop over the messages has two \<open>if\<close> statements. The first
  records the tool calls of the message; an absent or empty \<open>tool_calls\<close> is falsy.
\<close>

definition after_recording :: "message \<Rightarrow> calls \<Rightarrow> calls" where
  "after_recording msg tool_calls =
     (case msg_tool_calls msg of
        None \<Rightarrow> tool_calls
      | Some tcs \<Rightarrow> if tcs \<noteq> [] then record_calls tcs tool_calls else tool_calls)"

text \<open>
  The second stores the content of a tool message; an absent or empty
  \<open>tool_call_id\<close> is falsy, and the subscript \<open>tool_calls[msg.tool_call_id]\<close>
  raises \<open>KeyError\<close> on a key that is not there.
\<close>

definition process_message :: "message \<Rightarrow> calls \<Rightarrow> exn + calls" where
  "process_message msg tool_calls =
     (let tool_calls1 = after_recording msg tool_calls
      in case msg_tool_call_id msg of
           None \<Rightarrow> Inr tool_calls1
         | Some tid \<Rightarrow>
             if tid \<noteq> [] then
               (case map_of tool_calls1 tid of
                  None \<Rightarrow> Inl (Exn KeyError ([CHR 0x27] @ tid @ [CHR 0x27]))
                | Some call \<Rightarrow>
                    Inr (dict_set tid (call\<lparr>call_result := ResultText (msg_content msg)\<rparr>)
                           tool_calls1))
             else Inr tool_calls1)"

fun collect_calls :: "message list \<Rightarrow> calls \<Rightarrow> exn + calls" where
  "collect_calls [] tool_calls = Inr tool_calls"
| "collect_calls (msg # msgs) tool_calls =
     (case process_message msg tool_calls of
        Inl e \<Rightarrow> Inl e
      | Inr tool_calls1 \<Rightarrow> collect_calls msgs tool_calls1)"

text \<open>The dictionary \<open>{"answer": ...}\<close> with its optional key \<open>"tools"\<close>.\<close>

record response =
  resp_answer :: string
  resp_tools :: "string option"

definition answer :: "agent_env \<Rightarrow> string \<Rightarrow> exn + response" where
  "answer env question =
     (case agent_invoke env question of
        Inl e \<Rightarrow> Inl e
      | Inr messages \<Rightarrow>
          if messages = [] then Inl (Exn IndexError ''list index out of range'')
          else
            (let last_message = last messages; answer_text = msg_content last_message in
             case collect_calls messages [] of
               Inl e \<Rightarrow> Inl e
             | Inr tool_calls \<Rightarrow>
                 if tool_calls \<noteq> [] then
                   (case format_tool_details env tool_calls of
                      Inl e \<Rightarrow> Inl e
                    | Inr details \<Rightarrow>
                        Inr \<lparr>resp_answer = answer_text, resp_tools = Some details\<rparr>)
                 else Inr \<lparr>resp_answer = answer_text, resp_tools = None\<rparr>))"

subsection \<open>Notions used in the statements about \<open>answer\<close>\<close>

text \<open>The call identifiers that a message records as tool invocations.\<close>

definition recorded_ids :: "message \<Rightarrow> string set" where
  "recorded_ids msg = (case msg_tool_calls msg of None \<Rightarrow> {} | Some tcs \<Rightarrow> tc_id ` set tcs)"

text \<open>The call \<open>tid\<close> is in the correlation map and its result is still \<open>[]\<close>.\<close>

definition pending :: "string \<Rightarrow> calls \<Rightarrow> bool" where
  "pending tid tool_calls =
     (case map_of tool_calls tid of
        None \<Rightarrow> False
      | Some call \<Rightarrow> call_result call = Placeholder)"

section \<open>app.py\<close>

text \<open>One entry of the transcript \<open>st.session_state['messages']\<close>.\<close>

record chat_message =
  chat_role :: string
  chat_content :: string
  chat_tools :: "string option"

text \<open>What the page shows, in order.\<close>

datatype widget =
  ChatMarkdown string string | ToolDetails string | ErrorBanner string

text \<open>
  The outcome of handling one input: the transcript, the widgets drawn, and whether
  \<open>st.rerun()\<close> was reached. Streamlit's rerun signal is not a subclass of
  \<open>Exception\<close>, so the handler below lets it through.
\<close>

record turn_outcome =
  transcript :: "chat_message list"
  drawn :: "widget list"
  rerun :: bool

text \<open>
  The block under \<open>if prompt := st.chat_input(...)\<close>. The user's message is drawn and
  appended before the \<open>try\<close>; the assistant's message is appended inside it.
\<close>

definition handle_prompt :: "agent_env \<Rightarrow> chat_message list \<Rightarrow> string \<Rightarrow> turn_outcome" where
  "handle_prompt env messages prompt =
     (let drawn1 = [ChatMarkdown ''user'' prompt];
          messages1 = messages @ [\<lparr>chat_role = ''user'', chat_content = prompt, chat_tools = None\<rparr>]
      in case answer env prompt of
           Inl e \<Rightarrow>
             \<lparr>transcript = messages1,
              drawn = drawn1 @ [ErrorBanner (''An error occurred: '' @ exn_str e)],
              rerun = False\<rparr>
         | Inr response \<Rightarrow>
             (case resp_tools response of
                Some details \<Rightarrow>
                  \<lparr>transcript = messages1 @
                     [\<lparr>chat_role = ''assistant'', chat_content = resp_answer response,
                       chat_tools = Some details\<rparr>],
                   drawn = drawn1 @
                     [ChatMarkdown ''assistant'' (resp_answer response), ToolDetails details],
                   rerun = True\<rparr>
              | None \<Rightarrow>
                  \<lparr>transcript = messages1 @
                     [\<lparr>chat_role = ''assistant'', chat_content = resp_answer response,
                       chat_tools = None\<rparr>],
                   drawn = drawn1 @ [ChatMarkdown ''assistant'' (resp_answer response)],
                   rerun = True\<rparr>))"

text \<open>The loop that redraws the transcript on every run of the script.\<close>

definition draw_history :: "chat_message list \<Rightarrow> widget list" where
  "draw_history messages =
     concat (map (\<lambda>m. ChatMarkdown (chat_role m) (chat_content m)
                       # (case chat_tools m of None \<Rightarrow> [] | Some t \<Rightarrow> [ToolDetails t]))
                 messages)"

text \<open>\<open>if "messages" not in st.session_state: st.session_state['messages'] = []\<close>.\<close>

definition session_transcript :: "chat_message list option \<Rightarrow> chat_message list" where
  "session_transcript session_messages =
     (case session_messages of None \<Rightarrow> [] | Some ms \<Rightarrow> ms)"

text \<open>
  One run of the script for a session whose agent exists: \<open>session_messages\<close> is
  \<open>None\<close> when the key \<open>"messages"\<close> is not yet in the session state, and
  \<open>chat_input\<close> is what \<open>st.chat_input\<close> returns (\<open>None\<close> or the text; an empty
  text is falsy).
\<close>

definition app_run ::
  "agent_env \<Rightarrow> chat_message list option \<Rightarrow> string option \<Rightarrow> turn_outcome" where
  "app_run env session_messages chat_input =
     (let messages = session_transcript session_messages;
          history = draw_history messages
      in case chat_input of
           None \<Rightarrow> \<lparr>transcript = messages, drawn = history, rerun = False\<rparr>
         | Some prompt \<Rightarrow>
             if prompt \<noteq> [] then
               (let out = handle_prompt env messages prompt
                in out\<lparr>drawn := history @ drawn out\<rparr>)
             else \<lparr>transcript = messages, drawn = history, rerun = False\<rparr>)"

section \<open>setup_data.py\<close>



text \<open>
  What the script changes: the tables of the DuckDB file (each with the CSV file it was
  loaded from) and the passages held by the persisted vector index.
\<close>

record setup_world =
  tables :: "string \<rightharpoonup> string"
  vector_index :: "document list"

text \<open>
  What the script gets from outside the repository. Each of these answers the same way
  whenever it is asked the same thing.
  \<^item> \<open>glob_folders\<close>: \<open>glob.glob(os.path.join(DOCS_DIR, "*"))\<close>;
    \<open>glob_pdfs folder\<close>: \<open>glob.glob(os.path.join(folder, "*.pdf"))\<close>;
    \<open>glob_csv\<close>: \<open>glob.glob(os.path.join(DATA_DIR, "*.csv"))\<close>;
  \<^item> \<open>pdf_load doc\<close>: \<open>PyPDFLoader(doc).load()\<close>;
  \<^item> \<open>split_documents\<close>: the text splitter with chunk size 1000 and overlap 100;
  \<^item> \<open>embed_chunks chunks\<close>: whether \<open>OpenAIEmbeddings()\<close> or
    \<open>Chroma.from_documents\<close> raises;
  \<^item> \<open>duckdb_connect\<close>: whether \<open>duckdb.connect(DUCKDB_PATH)\<close> raises;
  \<^item> \<open>sql_execute stmt\<close>: whether \<open>con.execute(stmt)\<close> raises.
  The \<open>print\<close> calls are left out.
\<close>

record setup_env =
  glob_folders :: "string list"
  glob_pdfs :: "string \<Rightarrow> string list"
  glob_csv :: "string list"
  pdf_load :: "string \<Rightarrow> exn + document list"
  split_documents :: "document list \<Rightarrow> document list"
  embed_chunks :: "document list \<Rightarrow> exn option"
  duckdb_connect :: "exn option"
  sql_execute :: "string \<Rightarrow> exn option"

subsection \<open>\<open>setup_rag_db\<close>\<close>





subsection \<open>\<open>setup_sql_db\<close>\<close>






text \<open>
  The module itself: imports, \<open>load_dotenv()\<close>, five constants and the two function
  definitions. Nothing at module level calls either function.
\<close>

definition setup_data_module :: "setup_env \<Rightarrow> setup_world \<Rightarrow> (exn + unit) \<times> setup_world" where
  "setup_data_module env w = (Inr (), w)"



section \<open>Concrete inputs\<close>

text \<open>Three passages, two of them with the same text but from different files.\<close>

definition example_docs :: "document list" where
  "example_docs =
     [\<lparr>page_content = ''Engine: 5 years'', metadata = [''source'' \<mapsto> ''warranty.pdf'']\<rparr>,
      \<lparr>page_content = ''Engine: 5 years'', metadata = [''source'' \<mapsto> ''contract.pdf'']\<rparr>,
      \<lparr>page_content = ''Paint: 3 years'', metadata = [''source'' \<mapsto> ''warranty.pdf'']\<rparr>]"

definition example_retriever :: retriever where
  "example_retriever k doc_type question = Inr (take k example_docs)"

text \<open>
  A store with one dimension table; the model answers every prompt with the same
  statement, which the store can run.
\<close>

definition example_store :: tools_env where
  "example_store =
     \<lparr>db_connect = (\<lambda>n. None),
      db_fetchall = (\<lambda>q.
        if q = ''SHOW TABLES'' then Inr [[SqlText ''DIM_MODEL'']]
        else if q = ''DESCRIBE DIM_MODEL'' then Inr [[SqlText ''model'', SqlText ''VARCHAR'']]
        else if q = ''SELECT DISTINCT model FROM DIM_MODEL LIMIT 50''
          then Inr [[SqlText ''Corolla''], [SqlText ''Yaris'']]
        else Inl (Exn ExternalError ''Parser Error'')),
      db_records = (\<lambda>q.
        if q = ''SELECT model FROM DIM_MODEL''
          then Inr [[(''model'', SqlText ''Corolla'')], [(''model'', SqlText ''Yaris'')]]
        else Inl (Exn ExternalError ''Catalog Error'')),
      llm_invoke = (\<lambda>p. Inr ''SELECT model FROM DIM_MODEL'')\<rparr>"

text \<open>The same store with a model that asks for a table that does not exist.\<close>

definition example_store_bad_sql :: tools_env where
  "example_store_bad_sql = example_store\<lparr>llm_invoke := (\<lambda>p. Inr ''SELECT * FROM sales'')\<rparr>"

text \<open>A store without tables.\<close>

definition empty_store :: tools_env where
  "empty_store =
     \<lparr>db_connect = (\<lambda>n. None),
      db_fetchall = (\<lambda>q. if q = ''SHOW TABLES'' then Inr [] else Inl (Exn ExternalError ''Parser Error'')),
      db_records = (\<lambda>q. Inl (Exn ExternalError ''Catalog Error'')),
      llm_invoke = (\<lambda>p. Inr ''SELECT 1'')\<rparr>"

definition no_connections :: db_state where
  "no_connections = \<lparr>opened = 0, live = []\<rparr>"

text \<open>
  Stand-ins for the JSON and pandas functions: \<open>example_loads\<close> knows the one
  tool output used below.
\<close>

definition example_loads :: "string \<Rightarrow> exn + json" where
  "example_loads s =
     (if s = ''{\"context\": \"Engine: 5 years\", \"sources\": [\"warranty.pdf\"]}''
      then Inr (JObj [(''context'', JStr ''Engine: 5 years''),
                      (''sources'', JArr [JStr ''warranty.pdf''])])
      else Inl (Exn JSONDecodeError ''Expecting value''))"

definition example_agent :: "message list \<Rightarrow> agent_env" where
  "example_agent history =
     \<lparr>agent_invoke = (\<lambda>q. Inr history),
      json_loads = example_loads,
      json_dumps = (\<lambda>j. ''<json>''),
      json_dumps_indent = (\<lambda>j. ''<json>''),
      dataframe_to_string = (\<lambda>j. Inr ''<table>'')\<rparr>"

text \<open>The user's message, as the framework returns it at the head of the history.\<close>

definition human_message :: "string \<Rightarrow> message" where
  "human_message text = \<lparr>msg_content = text, msg_tool_calls = None, msg_tool_call_id = None\<rparr>"

text \<open>A message of the model, with the tool calls it asks for.\<close>

definition ai_message :: "string \<Rightarrow> tool_call list \<Rightarrow> message" where
  "ai_message text tcs = \<lparr>msg_content = text, msg_tool_calls = Some tcs, msg_tool_call_id = None\<rparr>"

text \<open>The output of a tool, for the call with the given identifier.\<close>

definition tool_message :: "string \<Rightarrow> string \<Rightarrow> message" where
  "tool_message tid text = \<lparr>msg_content = text, msg_tool_calls = None, msg_tool_call_id = Some tid\<rparr>"

definition retrieve_call :: tool_call where
  "retrieve_call =
     \<lparr>tc_id = ''call_1'', tc_name = ''retrieve'',
      tc_args = JObj [(''question'', JStr ''engine warranty''), (''doc_type'', JStr ''contracts'')]\<rparr>"

text \<open>A history in which the tool call is answered.\<close>

definition answered_history :: "message list" where
  "answered_history =
     [human_message ''What is the engine warranty?'',
      ai_message [] [retrieve_call],
      tool_message ''call_1''
        ''{\"context\": \"Engine: 5 years\", \"sources\": [\"warranty.pdf\"]}'',
      ai_message ''Five years.'' []]"

text \<open>A history in which the tool call is recorded and no tool message answers it.\<close>

definition unanswered_history :: "message list" where
  "unanswered_history =
     [human_message ''What is the engine warranty?'',
      ai_message [] [retrieve_call],
      ai_message ''Five years.'' []]"

text \<open>A history with a tool message whose identifier no message of the model recorded.\<close>

definition unrecorded_history :: "message list" where
  "unrecorded_history =
     [human_message ''What is the engine warranty?'',
      tool_message ''call_9''
        ''{\"context\": \"Engine: 5 years\", \"sources\": [\"warranty.pdf\"]}'',
      ai_message ''Five years.'' []]"

text \<open>An agent whose framework call raises, as when the chat model cannot be reached.\<close>

definition unreachable_agent :: agent_env where
  "unreachable_agent =
     (example_agent [])\<lparr>agent_invoke := (\<lambda>q. Inl (Exn ExternalError ''Connection error.''))\<rparr>"



section \<open>Properties of the retrieval tool\<close>

lemma dedup_loop_fresh:
  "page_content doc \<notin> set (map page_content acc) \<Longrightarrow>
   dedup_loop (doc # docs) acc (set (map page_content acc))
     = dedup_loop docs (acc @ [doc]) (set (map page_content (acc @ [doc])))"
  by simp

lemma dedup_loop_seen:
  "page_content doc \<in> set (map page_content acc) \<Longrightarrow>
   dedup_loop (doc # docs) acc (set (map page_content acc))
     = dedup_loop docs acc (set (map page_content acc))"
  by simp

lemma dedup_loop_contents:
  "set (map page_content (dedup_loop docs acc (set (map page_content acc))))
     = set (map page_content acc) \<union> page_content ` set docs"
proof (induction docs arbitrary: acc)
  case Nil
  show ?case by simp
next
  case (Cons doc docs)
  show ?case
  proof (cases "page_content doc \<in> set (map page_content acc)")
    case True
    have step: "dedup_loop (doc # docs) acc (set (map page_content acc))
                  = dedup_loop docs acc (set (map page_content acc))"
      using True by (rule dedup_loop_seen)
    have "set (map page_content (dedup_loop docs acc (set (map page_content acc))))
            = set (map page_content acc) \<union> page_content ` set docs"
      by (rule Cons.IH)
    with True show ?thesis unfolding step by auto
  next
    case False
    have step: "dedup_loop (doc # docs) acc (set (map page_content acc))
                  = dedup_loop docs (acc @ [doc]) (set (map page_content (acc @ [doc])))"
      using False by (rule dedup_loop_fresh)
    have "set (map page_content
             (dedup_loop docs (acc @ [doc]) (set (map page_content (acc @ [doc])))))
            = set (map page_content (acc @ [doc])) \<union> page_content ` set docs"
      by (rule Cons.IH)
    then show ?thesis unfolding step by auto
  qed
qed

lemma dedup_loop_distinct:
  "distinct (map page_content acc) \<Longrightarrow>
   distinct (map page_content (dedup_loop docs acc (set (map page_content acc))))"
proof (induction docs arbitrary: acc)
  case Nil
  then show ?case by simp
next
  case (Cons doc docs)
  show ?case
  proof (cases "page_content doc \<in> set (map page_content acc)")
    case True
    have step: "dedup_loop (doc # docs) acc (set (map page_content acc))
                  = dedup_loop docs acc (set (map page_content acc))"
      using True by (rule dedup_loop_seen)
    show ?thesis unfolding step using Cons.prems by (rule Cons.IH)
  next
    case False
    have step: "dedup_loop (doc # docs) acc (set (map page_content acc))
                  = dedup_loop docs (acc @ [doc]) (set (map page_content (acc @ [doc])))"
      using False by (rule dedup_loop_fresh)
    have "distinct (map page_content (acc @ [doc]))"
      using Cons.prems False by simp
    then show ?thesis unfolding step by (rule Cons.IH)
  qed
qed

lemma dedup_loop_subset:
  "set (dedup_loop docs acc seen) \<subseteq> set acc \<union> set docs"
proof (induction docs arbitrary: acc seen)
  case Nil
  show ?case by simp
next
  case (Cons doc docs)
  have "set (dedup_loop docs (acc @ [doc]) (insert (page_content doc) seen))
          \<subseteq> set (acc @ [doc]) \<union> set docs"
    by (rule Cons.IH)
  moreover have "set (dedup_loop docs acc seen) \<subseteq> set acc \<union> set docs"
    by (rule Cons.IH)
  ultimately show ?case by auto
qed

lemma dedup_loop_length:
  "length (dedup_loop docs acc seen) \<le> length acc + length docs"
proof (induction docs arbitrary: acc seen)
  case Nil
  show ?case by simp
next
  case (Cons doc docs)
  have "length (dedup_loop docs (acc @ [doc]) (insert (page_content doc) seen))
          \<le> length (acc @ [doc]) + length docs"
    by (rule Cons.IH)
  moreover have "length (dedup_loop docs acc seen) \<le> length acc + length docs"
    by (rule Cons.IH)
  ultimately show ?case by simp
qed

lemma context_passages_set: "set (context_passages docs) = page_content ` set docs"
  using dedup_loop_contents [of docs "[]"]
  by (simp add: context_passages_def unique_docs_of_def)

lemma context_passages_distinct: "distinct (context_passages docs)"
  using dedup_loop_distinct [of "[]" docs]
  by (simp add: context_passages_def unique_docs_of_def)

lemma unique_docs_of_subset: "set (unique_docs_of docs) \<subseteq> set docs"
  using dedup_loop_subset [of docs "[]" "{}"] by (simp add: unique_docs_of_def)

lemma unique_docs_of_length: "length (unique_docs_of docs) \<le> length docs"
  using dedup_loop_length [of docs "[]" "{}"] by (simp add: unique_docs_of_def)

lemma count_list_distinct_member:
  "distinct xs \<Longrightarrow> x \<in> set xs \<Longrightarrow> count_list xs x = 1"
  by (induction xs) (auto simp: count_list_0_iff)

lemma format_retrieved_context:
  "rr_context (format_retrieved docs) = join nl2 (context_passages docs)"
  by (simp add: format_retrieved_def context_passages_def Let_def)

lemma format_retrieved_sources:
  "rr_sources (format_retrieved docs) = remdups (map doc_source (unique_docs_of docs))"
  by (simp add: format_retrieved_def list_of_set_def Let_def)

text \<open>
  C1. Whatever list of passages the vector index hands to \<open>retrieve\<close>, the tool
  returns; the returned context is the passages of \<open>context_passages\<close> joined by
  blank lines, and in that list the text of every passage of the index's answer
  occurs exactly once (passages with equal page content are dropped after the
  first); the returned list of sources has no duplicate.
\<close>

theorem retrieve_dedup:
  assumes "retriever_invoke 3 doc_type question = Inr docs"
  shows "\<exists>r. retrieve retriever_invoke question doc_type = Inr r
           \<and> rr_context r = join nl2 (context_passages docs)
           \<and> (\<forall>d \<in> set docs. count_list (context_passages docs) (page_content d) = 1)
           \<and> set (context_passages docs) = page_content ` set docs
           \<and> distinct (rr_sources r)"
proof -
  have ret: "retrieve retriever_invoke question doc_type = Inr (format_retrieved docs)"
    using assms by (simp add: retrieve_def)
  have once: "\<forall>d \<in> set docs. count_list (context_passages docs) (page_content d) = 1"
  proof
    fix d assume "d \<in> set docs"
    then have "page_content d \<in> set (context_passages docs)"
      by (simp add: context_passages_set)
    then show "count_list (context_passages docs) (page_content d) = 1"
      by (rule count_list_distinct_member [OF context_passages_distinct])
  qed
  have "distinct (rr_sources (format_retrieved docs))"
    by (simp add: format_retrieved_sources)
  with ret once show ?thesis
    by (simp add: format_retrieved_context context_passages_set)
qed

theorem retrieve_dedup_witness:
  "\<exists>r. retrieve example_retriever ''engine warranty'' ''contracts'' = Inr r
      \<and> rr_context r = join nl2 (context_passages example_docs)
      \<and> (\<forall>d \<in> set example_docs.
             count_list (context_passages example_docs) (page_content d) = 1)
      \<and> set (context_passages example_docs) = page_content ` set example_docs
      \<and> distinct (rr_sources r)"
proof -
  have h: "example_retriever 3 ''contracts'' ''engine warranty'' = Inr example_docs"
    by (simp add: example_retriever_def example_docs_def)
  from retrieve_dedup [of example_retriever "''contracts''" "''engine warranty''" example_docs] h
  show ?thesis by blast
qed

text \<open>
  C6. When the vector index honours the result count \<open>k = 3\<close> that \<open>retrieve\<close>
  asks for, the returned list of sources has at most three entries, and each of them
  is the source of a passage of the index's answer that the deduplication kept, so
  that its text is one of the passages joined into the context.
\<close>

theorem retrieve_sources_bounded:
  assumes "retriever_invoke 3 doc_type question = Inr docs"
    and "length docs \<le> 3"
  shows "\<exists>r. retrieve retriever_invoke question doc_type = Inr r
           \<and> length (rr_sources r) \<le> 3
           \<and> rr_context r = join nl2 (context_passages docs)
           \<and> (\<forall>s \<in> set (rr_sources r). \<exists>d \<in> set (unique_docs_of docs).
                  d \<in> set docs \<and> doc_source d = s
                  \<and> page_content d \<in> set (context_passages docs))"
proof -
  have ret: "retrieve retriever_invoke question doc_type = Inr (format_retrieved docs)"
    using assms(1) by (simp add: retrieve_def)
  have "length (rr_sources (format_retrieved docs)) \<le> length (unique_docs_of docs)"
    using length_remdups_leq [of "map doc_source (unique_docs_of docs)"]
    by (simp add: format_retrieved_sources)
  then have len: "length (rr_sources (format_retrieved docs)) \<le> 3"
    using unique_docs_of_length [of docs] assms(2) by linarith
  have src: "\<forall>s \<in> set (rr_sources (format_retrieved docs)).
               \<exists>d \<in> set (unique_docs_of docs).
                 d \<in> set docs \<and> doc_source d = s
                 \<and> page_content d \<in> set (context_passages docs)"
  proof
    fix s assume "s \<in> set (rr_sources (format_retrieved docs))"
    then obtain d where d: "d \<in> set (unique_docs_of docs)" "doc_source d = s"
      by (auto simp: format_retrieved_sources)
    from d(1) have "d \<in> set docs" using unique_docs_of_subset by blast
    moreover from d(1) have "page_content d \<in> set (context_passages docs)"
      by (simp add: context_passages_def)
    ultimately show "\<exists>d \<in> set (unique_docs_of docs).
        d \<in> set docs \<and> doc_source d = s \<and> page_content d \<in> set (context_passages docs)"
      using d by blast
  qed
  from ret len src show ?thesis
    by (simp add: format_retrieved_context)
qed

theorem retrieve_sources_bounded_witness:
  "\<exists>r. retrieve example_retriever ''engine warranty'' ''contracts'' = Inr r
      \<and> length (rr_sources r) \<le> 3
      \<and> rr_context r = join nl2 (context_passages example_docs)
      \<and> (\<forall>s \<in> set (rr_sources r). \<exists>d \<in> set (unique_docs_of example_docs).
             d \<in> set example_docs \<and> doc_source d = s
             \<and> page_content d \<in> set (context_passages example_docs))"
proof -
  have h: "example_retriever 3 ''contracts'' ''engine warranty'' = Inr example_docs"
    by (simp add: example_retriever_def example_docs_def)
  have k: "length example_docs \<le> 3"
    by (simp add: example_docs_def)
  from retrieve_sources_bounded
         [of example_retriever "''contracts''" "''engine warranty''" example_docs] h k
  show ?thesis by blast
qed

lemma example_retrieval:
  "retrieve example_retriever ''engine warranty'' ''contracts''
     = Inr \<lparr>rr_context = ''Engine: 5 years'' @ nl2 @ ''Paint: 3 years'',
            rr_sources = [''warranty.pdf'']\<rparr>"
  by (simp add: retrieve_def example_retriever_def example_docs_def format_retrieved_def
        unique_docs_of_def doc_source_def list_of_set_def)

section \<open>Properties of the SQL tool\<close>

lemma connect_result:
  "connect env s = (Inr con, s1) \<Longrightarrow>
   con = opened s \<and> opened s1 = Suc (opened s) \<and> live s1 = opened s # live s"
  by (auto simp: connect_def split: option.splits)

lemma get_schema_result:
  assumes "get_schema env s = (Inr schema, s1)"
  shows "opened s1 = Suc (opened s) \<and> live s1 = removeAll (opened s) (opened s # live s)"
  using assms
  by (auto simp: get_schema_def close_def dest!: connect_result
           split: prod.splits sum.splits)

lemma generate_sql_result:
  assumes "generate_sql env question s = (Inr sql_query, s1)"
  shows "opened s1 = Suc (opened s) \<and> live s1 = removeAll (opened s) (opened s # live s)"
  using assms
  by (auto simp: generate_sql_def dest!: get_schema_result split: prod.splits sum.splits)

lemma run_sql_result:
  assumes "run_sql env question s = (Inr v, s')"
  shows "\<exists>sql_query s1. generate_sql env question s = (Inr sql_query, s1)
           \<and> opened s' = Suc (opened s1)
           \<and> live s' = removeAll (opened s1) (opened s1 # live s1)"
  using assms
  by (auto simp: run_sql_def close_def dest!: connect_result split: prod.splits sum.splits)

lemma get_schema_example:
  "get_schema example_store no_connections
     = (Inr (''Table: DIM_MODEL'' @ nl @ ''Columns: model (VARCHAR) (Values: Corolla, Yaris)''),
        \<lparr>opened = 1, live = []\<rparr>)"
  by (simp add: get_schema_def connect_def close_def example_store_def no_connections_def
        describe_table_def describe_column_def tuple_at_def distinct_values_query_def)

lemma generate_sql_example:
  "generate_sql example_store question no_connections
     = (Inr ''SELECT model FROM DIM_MODEL'', \<lparr>opened = 1, live = []\<rparr>)"
  by (simp add: generate_sql_def get_schema_example) (simp add: example_store_def)

lemma generate_sql_example_bad:
  "generate_sql example_store_bad_sql question no_connections
     = (Inr ''SELECT * FROM sales'', \<lparr>opened = 1, live = []\<rparr>)"
  by (simp add: generate_sql_def get_schema_def connect_def close_def example_store_def
        example_store_bad_sql_def no_connections_def describe_table_def describe_column_def
        tuple_at_def distinct_values_query_def)

text \<open>
  C2. When the generated statement has been produced and the connection for it opened,
  and executing the statement raises \<open>e\<close>, then \<open>run_sql\<close> does not raise: it returns
  the string \<open>"Error executing SQL: "\<close> followed by the text of \<open>e\<close>, and the
  connection it opened for the execution is closed.
\<close>

theorem run_sql_execution_failure:
  assumes "generate_sql env question s = (Inr sql_query, s1)"
    and "db_connect env (opened s1) = None"
    and "db_records env sql_query = Inl e"
  shows "\<exists>s'. run_sql env question s
                 = (Inr (ErrorText (''Error executing SQL: '' @ exn_str e)), s')
              \<and> opened s1 \<notin> set (live s')"
  using assms by (simp add: run_sql_def connect_def close_def)

theorem run_sql_execution_failure_witness:
  "\<exists>s'. run_sql example_store_bad_sql ''Total sales?'' no_connections
           = (Inr (ErrorText ''Error executing SQL: Catalog Error''), s')
        \<and> 1 \<notin> set (live s')"
proof -
  have c: "db_connect example_store_bad_sql (opened \<lparr>opened = 1, live = []\<rparr>) = None"
    by (simp add: example_store_bad_sql_def example_store_def)
  have x: "db_records example_store_bad_sql ''SELECT * FROM sales''
             = Inl (Exn ExternalError ''Catalog Error'')"
    by (simp add: example_store_bad_sql_def example_store_def)
  from run_sql_execution_failure [OF generate_sql_example_bad c x]
  show ?thesis by simp
qed

text \<open>
  C7. When the generated statement has been produced and the connection for it opened,
  and executing the statement succeeds, then \<open>run_sql\<close> returns the dictionary that
  holds the text of the generated statement under \<open>"query"\<close> and, under
  \<open>"sql_result"\<close>, the sequence of records (column name to value) of the result, in
  the order in which the execution delivered them.
\<close>

theorem run_sql_success:
  assumes "generate_sql env question s = (Inr sql_query, s1)"
    and "db_connect env (opened s1) = None"
    and "db_records env sql_query = Inr rows"
  shows "fst (run_sql env question s)
           = Inr (QueryOutput \<lparr>out_query = sql_query, out_sql_result = rows\<rparr>)"
  using assms by (simp add: run_sql_def connect_def)

theorem run_sql_success_witness:
  "fst (run_sql example_store ''Which models are there?'' no_connections)
     = Inr (QueryOutput
         \<lparr>out_query = ''SELECT model FROM DIM_MODEL'',
          out_sql_result = [[(''model'', SqlText ''Corolla'')], [(''model'', SqlText ''Yaris'')]]\<rparr>)"
proof -
  have c: "db_connect example_store (opened \<lparr>opened = 1, live = []\<rparr>) = None"
    by (simp add: example_store_def)
  have x: "db_records example_store ''SELECT model FROM DIM_MODEL''
             = Inr [[(''model'', SqlText ''Corolla'')], [(''model'', SqlText ''Yaris'')]]"
    by (simp add: example_store_def)
  from run_sql_success [OF generate_sql_example c x]
  show ?thesis .
qed

text \<open>
  C8, as stated, fails: a call of \<open>run_sql\<close> that returns has opened two connections,
  not one. \<open>generate_sql\<close> calls \<open>get_schema\<close>, which opens and closes a connection
  of its own, before \<open>run_sql\<close> opens the one for the execution.
\<close>

theorem run_sql_one_connection_counterexample:
  "fst (run_sql example_store ''Which models are there?'' no_connections)
     = Inr (QueryOutput
         \<lparr>out_query = ''SELECT model FROM DIM_MODEL'',
          out_sql_result = [[(''model'', SqlText ''Corolla'')], [(''model'', SqlText ''Yaris'')]]\<rparr>)
   \<and> opened no_connections = 0
   \<and> opened (snd (run_sql example_store ''Which models are there?'' no_connections)) = 2"
  unfolding run_sql_def generate_sql_example
  by (simp add: connect_def close_def example_store_def no_connections_def)

text \<open>
  C8, amended. A call of \<open>run_sql\<close> that returns (with a result or with the text of
  an execution error) has opened exactly two connections, one in \<open>get_schema\<close> and
  one for the execution, and has closed both: the connections that are open afterwards
  are those that were open before.
\<close>

theorem run_sql_two_connections:
  assumes "run_sql env question s = (Inr v, s')"
    and "\<forall>c \<in> set (live s). c < opened s"
  shows "opened s' = opened s + 2 \<and> live s' = live s"
proof -
  from run_sql_result [OF assms(1)] obtain sql_query s1 where
    g: "generate_sql env question s = (Inr sql_query, s1)"
    and o: "opened s' = Suc (opened s1)"
    and l: "live s' = removeAll (opened s1) (opened s1 # live s1)"
    by blast
  from generate_sql_result [OF g] have
    o1: "opened s1 = Suc (opened s)"
    and l1: "live s1 = removeAll (opened s) (opened s # live s)"
    by simp_all
  have fresh: "opened s \<notin> set (live s)" "Suc (opened s) \<notin> set (live s)"
    using assms(2) by auto
  from l1 fresh(1) have l1': "live s1 = live s" by simp
  from l o1 l1' fresh(2) have "live s' = live s" by simp
  with o o1 show ?thesis by simp
qed

theorem run_sql_two_connections_witness:
  "opened (snd (run_sql example_store_bad_sql ''Total sales?'' no_connections))
     = opened no_connections + 2
   \<and> live (snd (run_sql example_store_bad_sql ''Total sales?'' no_connections))
     = live no_connections"
proof -
  have r: "run_sql example_store_bad_sql ''Total sales?'' no_connections
             = (Inr (ErrorText ''Error executing SQL: Catalog Error''), \<lparr>opened = 2, live = []\<rparr>)"
    unfolding run_sql_def generate_sql_example_bad
    by (simp add: connect_def close_def example_store_bad_sql_def example_store_def)
  have w: "\<forall>c \<in> set (live no_connections). c < opened no_connections"
    by (simp add: no_connections_def)
  from run_sql_two_connections [OF r w] show ?thesis by (simp add: r)
qed

text \<open>
  C9. When the store can be opened and its catalog lists no table, \<open>get_schema\<close>
  raises nothing and returns the empty string, and its connection is closed.
\<close>

theorem get_schema_no_tables:
  assumes "db_connect env (opened s) = None"
    and "db_fetchall env ''SHOW TABLES'' = Inr []"
  shows "\<exists>s'. get_schema env s = (Inr [], s') \<and> opened s \<notin> set (live s')"
  using assms by (simp add: get_schema_def connect_def close_def)

theorem get_schema_no_tables_witness:
  "\<exists>s'. get_schema empty_store no_connections = (Inr [], s') \<and> 0 \<notin> set (live s')"
proof -
  have c: "db_connect empty_store (opened no_connections) = None"
    by (simp add: empty_store_def)
  have t: "db_fetchall empty_store ''SHOW TABLES'' = Inr []"
    by (simp add: empty_store_def)
  from get_schema_no_tables [OF c t] show ?thesis by (simp add: no_connections_def)
qed

section \<open>Properties of the agent\<close>

lemma map_of_dict_set: "map_of (dict_set k v kvs) = (map_of kvs)(k \<mapsto> v)"
  by (induction kvs) auto

lemma dict_set_keys: "dom (map_of (dict_set k v kvs)) = insert k (dom (map_of kvs))"
  by (simp add: map_of_dict_set)

lemma record_calls_keys:
  "dom (map_of (record_calls tcs tool_calls)) = tc_id ` set tcs \<union> dom (map_of tool_calls)"
  by (induction tcs arbitrary: tool_calls) (auto simp: map_of_dict_set)

lemma after_recording_keys:
  "dom (map_of (after_recording msg tool_calls)) = dom (map_of tool_calls) \<union> recorded_ids msg"
  by (auto simp: after_recording_def recorded_ids_def record_calls_keys split: option.splits)

lemma process_message_unfold:
  "process_message msg tool_calls =
     (case msg_tool_call_id msg of
        None \<Rightarrow> Inr (after_recording msg tool_calls)
      | Some tid \<Rightarrow>
          if tid \<noteq> [] then
            (case map_of (after_recording msg tool_calls) tid of
               None \<Rightarrow> Inl (Exn KeyError ([CHR 0x27] @ tid @ [CHR 0x27]))
             | Some call \<Rightarrow>
                 Inr (dict_set tid (call\<lparr>call_result := ResultText (msg_content msg)\<rparr>)
                        (after_recording msg tool_calls)))
          else Inr (after_recording msg tool_calls))"
  unfolding process_message_def Let_def ..

lemma process_message_Inr:
  assumes "process_message msg tool_calls = Inr tool_calls1"
  shows "tool_calls1 = after_recording msg tool_calls
         \<or> (\<exists>tid call. map_of (after_recording msg tool_calls) tid = Some call
               \<and> msg_tool_call_id msg = Some tid
               \<and> tool_calls1
                   = dict_set tid (call\<lparr>call_result := ResultText (msg_content msg)\<rparr>)
                       (after_recording msg tool_calls))"
proof (cases "msg_tool_call_id msg")
  case None
  with assms show ?thesis by (simp add: process_message_unfold)
next
  case id: (Some tid)
  show ?thesis
  proof (cases "tid = []")
    case True
    with id assms show ?thesis by (simp add: process_message_unfold)
  next
    case False
    show ?thesis
    proof (cases "map_of (after_recording msg tool_calls) tid")
      case None
      with id False assms show ?thesis by (simp add: process_message_unfold)
    next
      case (Some call)
      with id False assms have
        "tool_calls1 = dict_set tid (call\<lparr>call_result := ResultText (msg_content msg)\<rparr>)
                         (after_recording msg tool_calls)"
        by (simp add: process_message_unfold)
      with id Some show ?thesis by blast
    qed
  qed
qed

lemma process_message_keys:
  assumes "process_message msg tool_calls = Inr tool_calls1"
  shows "dom (map_of tool_calls1) = dom (map_of tool_calls) \<union> recorded_ids msg"
proof -
  from process_message_Inr [OF assms]
  have "dom (map_of tool_calls1) = dom (map_of (after_recording msg tool_calls))"
  proof
    assume "tool_calls1 = after_recording msg tool_calls"
    then show ?thesis by simp
  next
    assume "\<exists>tid call. map_of (after_recording msg tool_calls) tid = Some call
               \<and> msg_tool_call_id msg = Some tid
               \<and> tool_calls1
                   = dict_set tid (call\<lparr>call_result := ResultText (msg_content msg)\<rparr>)
                       (after_recording msg tool_calls)"
    then obtain tid call where
      c: "map_of (after_recording msg tool_calls) tid = Some call"
      and t: "tool_calls1
                = dict_set tid (call\<lparr>call_result := ResultText (msg_content msg)\<rparr>)
                    (after_recording msg tool_calls)"
      by blast
    from c have "tid \<in> dom (map_of (after_recording msg tool_calls))" by blast
    then show ?thesis unfolding t dict_set_keys by blast
  qed
  then show ?thesis by (simp add: after_recording_keys)
qed

lemma process_message_Inl:
  assumes "process_message msg tool_calls = Inl e"
  shows "\<exists>tid. msg_tool_call_id msg = Some tid \<and> tid \<noteq> []
           \<and> map_of (after_recording msg tool_calls) tid = None
           \<and> e = Exn KeyError ([CHR 0x27] @ tid @ [CHR 0x27])"
proof (cases "msg_tool_call_id msg")
  case None
  with assms show ?thesis by (simp add: process_message_unfold)
next
  case id: (Some tid)
  show ?thesis
  proof (cases "tid = []")
    case True
    with id assms show ?thesis by (simp add: process_message_unfold)
  next
    case False
    show ?thesis
    proof (cases "map_of (after_recording msg tool_calls) tid")
      case None
      with id False assms show ?thesis by (simp add: process_message_unfold)
    next
      case (Some call)
      with id False assms show ?thesis by (simp add: process_message_unfold)
    qed
  qed
qed

lemma process_message_raises_KeyError:
  assumes "process_message msg tool_calls = Inl e"
  shows "\<exists>k. e = Exn KeyError k"
  using process_message_Inl [OF assms] by blast

lemma process_message_unrecorded:
  assumes "msg_tool_call_id msg = Some tid" and "tid \<noteq> []"
    and "tid \<notin> dom (map_of tool_calls)" and "tid \<notin> recorded_ids msg"
  shows "\<exists>k. process_message msg tool_calls = Inl (Exn KeyError k)"
proof -
  have "tid \<notin> dom (map_of (after_recording msg tool_calls))"
    using assms(3,4) by (simp add: after_recording_keys)
  then have "map_of (after_recording msg tool_calls) tid = None"
    by blast
  with assms(1,2) show ?thesis
    by (simp add: process_message_unfold)
qed

lemma collect_calls_unrecorded:
  assumes "m \<in> set msgs" and "msg_tool_call_id m = Some tid" and "tid \<noteq> []"
    and "tid \<notin> dom (map_of tool_calls)"
    and "\<forall>m' \<in> set msgs. tid \<notin> recorded_ids m'"
  shows "\<exists>k. collect_calls msgs tool_calls = Inl (Exn KeyError k)"
  using assms
proof (induction msgs arbitrary: tool_calls)
  case Nil
  then show ?case by simp
next
  case (Cons msg msgs)
  show ?case
  proof (cases "process_message msg tool_calls")
    case (Inl e)
    then show ?thesis using process_message_raises_KeyError [OF Inl] by auto
  next
    case (Inr tool_calls1)
    have keys: "tid \<notin> dom (map_of tool_calls1)"
      using process_message_keys [OF Inr] Cons.prems(4,5) by auto
    have "m \<noteq> msg"
    proof
      assume "m = msg"
      then have "\<exists>k. process_message msg tool_calls = Inl (Exn KeyError k)"
        using process_message_unrecorded [of msg tid tool_calls] Cons.prems by auto
      with Inr show False by simp
    qed
    with Cons.prems(1) have "m \<in> set msgs" by simp
    then have "\<exists>k. collect_calls msgs tool_calls1 = Inl (Exn KeyError k)"
      using Cons.IH [of tool_calls1] Cons.prems(2,3,5) keys by simp
    with Inr show ?thesis by simp
  qed
qed

lemma record_calls_pending:
  "pending tid tool_calls \<or> tid \<in> tc_id ` set tcs \<Longrightarrow> pending tid (record_calls tcs tool_calls)"
proof (induction tcs arbitrary: tool_calls)
  case Nil
  then show ?case by simp
next
  case (Cons tc tcs)
  let ?tc1 = "dict_set (tc_id tc)
          \<lparr>call_name = tc_name tc, call_args = tc_args tc, call_result = Placeholder\<rparr>
          tool_calls"
  have "pending tid ?tc1 \<or> tid \<in> tc_id ` set tcs"
    using Cons.prems by (auto simp: pending_def map_of_dict_set)
  then have "pending tid (record_calls tcs ?tc1)" by (rule Cons.IH)
  then show ?case by simp
qed

lemma process_message_pending:
  assumes "process_message msg tool_calls = Inr tool_calls1"
    and "msg_tool_call_id msg \<noteq> Some tid"
    and "pending tid tool_calls \<or> tid \<in> recorded_ids msg"
  shows "pending tid tool_calls1"
proof -
  have p: "pending tid (after_recording msg tool_calls)"
    using assms(3) record_calls_pending [of tid tool_calls]
    by (auto simp: after_recording_def recorded_ids_def split: option.splits)
  from process_message_Inr [OF assms(1)] show ?thesis
  proof
    assume "tool_calls1 = after_recording msg tool_calls"
    with p show ?thesis by simp
  next
    assume "\<exists>tid call. map_of (after_recording msg tool_calls) tid = Some call
               \<and> msg_tool_call_id msg = Some tid
               \<and> tool_calls1
                   = dict_set tid (call\<lparr>call_result := ResultText (msg_content msg)\<rparr>)
                       (after_recording msg tool_calls)"
    then obtain tid' call where
      i: "msg_tool_call_id msg = Some tid'"
      and t: "tool_calls1
                = dict_set tid' (call\<lparr>call_result := ResultText (msg_content msg)\<rparr>)
                    (after_recording msg tool_calls)"
      by blast
    from i assms(2) have "tid' \<noteq> tid" by auto
    with p show ?thesis unfolding t by (simp add: pending_def map_of_dict_set)
  qed
qed

lemma collect_calls_pending:
  assumes "collect_calls msgs tool_calls = Inr tool_calls1"
    and "\<forall>m \<in> set msgs. msg_tool_call_id m \<noteq> Some tid"
    and "pending tid tool_calls \<or> (\<exists>m \<in> set msgs. tid \<in> recorded_ids m)"
  shows "pending tid tool_calls1"
  using assms
proof (induction msgs arbitrary: tool_calls)
  case Nil
  then show ?case by simp
next
  case (Cons msg msgs)
  from Cons.prems(1) obtain tc1 where
    step: "process_message msg tool_calls = Inr tc1" and rest: "collect_calls msgs tc1 = Inr tool_calls1"
    by (auto split: sum.splits)
  have "pending tid tc1 \<or> (\<exists>m \<in> set msgs. tid \<in> recorded_ids m)"
    using Cons.prems(2,3) process_message_pending [OF step, of tid] by auto
  with rest Cons.prems(2) show ?case using Cons.IH [of tc1] by simp
qed

lemma map_exn_fails:
  "x \<in> set xs \<Longrightarrow> f x = Inl e \<Longrightarrow> \<exists>e'. map_exn f xs = Inl e'"
  by (induction xs) (auto split: sum.splits)

lemma format_call_placeholder:
  "call_result call = Placeholder \<Longrightarrow>
   format_call env call
     = Inl (Exn TypeError ''the JSON object must be str, bytes or bytearray, not list'')"
  by (simp add: format_call_def loads_result_def Let_def)

lemma format_tool_details_pending:
  assumes "pending tid tool_calls"
  shows "\<exists>e. format_tool_details env tool_calls = Inl e"
proof -
  from assms obtain call where c: "map_of tool_calls tid = Some call" "call_result call = Placeholder"
    by (auto simp: pending_def split: option.splits)
  from c(1) have "(tid, call) \<in> set tool_calls" by (rule map_of_SomeD)
  then have "call \<in> set (map snd tool_calls)" by force
  from map_exn_fails [of call "map snd tool_calls" "format_call env", OF this
         format_call_placeholder [OF c(2)]]
  show ?thesis by (auto simp: format_tool_details_def)
qed

text \<open>
  Whenever a message of the history records a tool call and no message of the history
  carries that call's identifier as its \<open>tool_call_id\<close>, \<open>answer\<close> raises: the
  call's result is still \<open>[]\<close> when \<open>format_tool_details\<close> hands it to
  \<open>json.loads\<close> (unless an earlier step has raised already).
\<close>

lemma answer_unanswered_call_raises:
  assumes "agent_invoke env question = Inr messages"
    and "m \<in> set messages" and "msg_tool_calls m = Some tcs" and "tc \<in> set tcs"
    and "\<forall>m' \<in> set messages. msg_tool_call_id m' \<noteq> Some (tc_id tc)"
  shows "\<exists>e. answer env question = Inl e"
proof (cases "collect_calls messages []")
  case (Inl e)
  then show ?thesis using assms(1) by (auto simp: answer_def Let_def)
next
  case (Inr tool_calls)
  have "\<exists>m \<in> set messages. tc_id tc \<in> recorded_ids m"
    using assms(2,3,4) by (auto simp: recorded_ids_def intro!: bexI [of _ m])
  then have p: "pending (tc_id tc) tool_calls"
    using collect_calls_pending [OF Inr assms(5)] by simp
  then have "tool_calls \<noteq> []" by (auto simp: pending_def)
  moreover from format_tool_details_pending [OF p]
  obtain e where "format_tool_details env tool_calls = Inl e" by blast
  ultimately show ?thesis using assms(1) Inr by (auto simp: answer_def Let_def)
qed

text \<open>
  C5, at a concrete history: the model asks for one call of \<open>retrieve\<close>, no tool
  message answers it, and the model then gives its final answer. After the loop over
  the messages the call's result is the placeholder \<open>[]\<close>, as the claim says; but
  \<open>answer\<close> does not return: \<open>format_tool_details\<close> passes the placeholder to
  \<open>json.loads\<close>, which raises \<open>TypeError\<close>.
\<close>

theorem answer_unanswered_call_failing_input:
  "collect_calls unanswered_history []
     = Inr [(''call_1'',
             \<lparr>call_name = ''retrieve'', call_args = tc_args retrieve_call,
              call_result = Placeholder\<rparr>)]
   \<and> answer (example_agent unanswered_history) ''What is the engine warranty?''
     = Inl (Exn TypeError ''the JSON object must be str, bytes or bytearray, not list'')"
  by (simp add: answer_def example_agent_def unanswered_history_def human_message_def
        ai_message_def retrieve_call_def process_message_def after_recording_def
        format_tool_details_def format_call_def loads_result_def)

text \<open>
  C10. If the history that the framework returns contains a tool message (a message
  whose \<open>tool_call_id\<close> is present and not empty, which is what the code tests) and
  no message of the history records that identifier as a tool invocation, then
  \<open>answer\<close> raises \<open>KeyError\<close>.
\<close>

theorem answer_unrecorded_tool_result:
  assumes "agent_invoke env question = Inr messages"
    and "m \<in> set messages" and "msg_tool_call_id m = Some tid" and "tid \<noteq> []"
    and "\<forall>m' \<in> set messages. tid \<notin> recorded_ids m'"
  shows "\<exists>k. answer env question = Inl (Exn KeyError k)"
proof -
  obtain k where "collect_calls messages [] = Inl (Exn KeyError k)"
    using collect_calls_unrecorded [of m messages tid "[]"] assms(2,3,4,5) by auto
  moreover have "messages \<noteq> []" using assms(2) by auto
  ultimately show ?thesis using assms(1) by (simp add: answer_def Let_def)
qed

theorem answer_unrecorded_tool_result_witness:
  "\<exists>k. answer (example_agent unrecorded_history) ''What is the engine warranty?''
          = Inl (Exn KeyError k)"
proof -
  let ?m = "tool_message ''call_9''
              ''{\"context\": \"Engine: 5 years\", \"sources\": [\"warranty.pdf\"]}''"
  have h: "agent_invoke (example_agent unrecorded_history) ''What is the engine warranty?''
             = Inr unrecorded_history"
    by (simp add: example_agent_def)
  have m: "?m \<in> set unrecorded_history"
    by (simp add: unrecorded_history_def)
  have i: "msg_tool_call_id ?m = Some ''call_9''"
    by (simp add: tool_message_def)
  have n: "''call_9'' \<noteq> []"
    by simp
  have r: "\<forall>m' \<in> set unrecorded_history. ''call_9'' \<notin> recorded_ids m'"
    by (simp add: unrecorded_history_def recorded_ids_def human_message_def tool_message_def
          ai_message_def)
  from answer_unrecorded_tool_result [OF h m i n r] show ?thesis .
qed

section \<open>Properties of the chat page\<close>

text \<open>
  C4, as stated, fails: the user's message is appended to the transcript before the
  \<open>try\<close> that calls the agent, so it is in the transcript after a turn whose agent
  call raised. Here the session starts with an empty transcript and the chat model
  cannot be reached.
\<close>

theorem app_failed_turn_counterexample:
  "answer unreachable_agent ''hi'' = Inl (Exn ExternalError ''Connection error.'')
   \<and> transcript (app_run unreachable_agent (Some []) (Some ''hi''))
     = [\<lparr>chat_role = ''user'', chat_content = ''hi'', chat_tools = None\<rparr>]
   \<and> transcript (app_run unreachable_agent (Some []) (Some ''hi'')) \<noteq> []"
  by (simp add: app_run_def handle_prompt_def session_transcript_def answer_def
        unreachable_agent_def example_agent_def)

text \<open>
  C4, amended. When an exception escapes \<open>answer\<close>, the page catches it and shows
  an error with the text of the exception; the transcript grows by exactly the user's
  message of that turn, no assistant message is appended, and the script is not rerun.
\<close>

theorem app_failed_turn:
  assumes "prompt \<noteq> []" and "answer env prompt = Inl e"
  shows "transcript (app_run env session_messages (Some prompt))
           = session_transcript session_messages
             @ [\<lparr>chat_role = ''user'', chat_content = prompt, chat_tools = None\<rparr>]
         \<and> drawn (app_run env session_messages (Some prompt))
           = draw_history (session_transcript session_messages)
             @ [ChatMarkdown ''user'' prompt, ErrorBanner (''An error occurred: '' @ exn_str e)]
         \<and> \<not> rerun (app_run env session_messages (Some prompt))"
  using assms by (simp add: app_run_def handle_prompt_def Let_def)

theorem app_failed_turn_witness:
  "transcript (app_run unreachable_agent None (Some ''hi''))
     = [\<lparr>chat_role = ''user'', chat_content = ''hi'', chat_tools = None\<rparr>]
   \<and> drawn (app_run unreachable_agent None (Some ''hi''))
     = [ChatMarkdown ''user'' ''hi'', ErrorBanner ''An error occurred: Connection error.'']
   \<and> \<not> rerun (app_run unreachable_agent None (Some ''hi''))"
proof -
  have p: "''hi'' \<noteq> []" by simp
  have a: "answer unreachable_agent ''hi'' = Inl (Exn ExternalError ''Connection error.'')"
    by (simp add: answer_def unreachable_agent_def example_agent_def)
  from app_failed_turn [OF p a, of None] show ?thesis
    by (simp add: session_transcript_def draw_history_def)
qed

section \<open>Properties of the data setup\<close>










text \<open>The module calls neither function: running the script changes nothing.\<close>

lemma setup_data_module_idle: "setup_data_module env w = (Inr (), w)"
  by (simp add: setup_data_module_def)







end
